theory Spec2Isabelle
  imports Main "HOL-Library.Sublist"
begin

section \<open>Python text and values\<close>

text \<open>
  A Python \<open>str\<close> is a sequence of Unicode code points, and \<open>len\<close>, slicing, \<open>split\<close>
  and \<open>strip\<close> all count code points. A string is therefore modelled as the list of its
  code points, so that the Devanagari prompt template and any retrieved passage are
  covered. \<open>str\<close> embeds an ASCII literal.
\<close>

type_synonym pystr = "nat list"

definition str :: "string \<Rightarrow> pystr" where
  "str s = map of_char s"

text \<open>
  Exceptions are values. \<open>Raised\<close> stands for whatever exception an external collaborator
  (document store, generation backend, translator, language detector, JSON parser, a
  constructor) raises; \<open>HTTPException\<close> carries status code and detail.
\<close>

datatype error = ValueError | IndexError | HTTPException nat pystr | Raised pystr

datatype pyval =
    PNone
  | PStr pystr
  | PInt int
  | PList "pyval list"
  | PDict "(pystr \<times> pyval) list"

text \<open>Truthiness of an \<open>Optional[str]\<close>: \<open>None\<close> and the empty string are false.\<close>

definition truthy :: "pystr option \<Rightarrow> bool" where
  "truthy v = (case v of None \<Rightarrow> False | Some s \<Rightarrow> s \<noteq> [])"

text \<open>
  \<open>str.isspace\<close> on one code point, which is what \<open>str.strip()\<close> without argument removes:
  U+0009..U+000D, U+001C..U+0020, U+0085, U+00A0, U+1680, U+2000..U+200A, U+2028,
  U+2029, U+202F, U+205F, U+3000.
\<close>

definition is_space :: "nat \<Rightarrow> bool" where
  "is_space c =
     ((9 \<le> c \<and> c \<le> 13) \<or> (28 \<le> c \<and> c \<le> 32) \<or> c = 133 \<or> c = 160 \<or> c = 5760
      \<or> (8192 \<le> c \<and> c \<le> 8202) \<or> c = 8232 \<or> c = 8233 \<or> c = 8239 \<or> c = 8287
      \<or> c = 12288)"

definition strip :: "pystr \<Rightarrow> pystr" where
  "strip s = rev (dropWhile is_space (rev (dropWhile is_space s)))"

definition startswith :: "pystr \<Rightarrow> pystr \<Rightarrow> bool" where
  "startswith s p = prefix p s"

text \<open>
  \<open>s.split(sep)\<close>: a left-to-right scan for non-overlapping occurrences of \<open>sep\<close>;
  \<open>cur\<close> is the piece being collected. Python raises \<open>ValueError\<close> for an empty separator.
\<close>

function split_from :: "pystr \<Rightarrow> pystr \<Rightarrow> pystr \<Rightarrow> pystr list" where
  "split_from sep cur [] = [cur]"
| "split_from sep cur (c # cs) =
     (if sep \<noteq> [] \<and> prefix sep (c # cs)
      then cur # split_from sep [] (drop (length sep) (c # cs))
      else split_from sep (cur @ [c]) cs)"
  by pat_completeness auto
termination
  by (relation "measure (\<lambda>(sep, cur, rest). length rest)") (auto simp: neq_Nil_conv)

definition py_split :: "pystr \<Rightarrow> pystr \<Rightarrow> error + pystr list" where
  "py_split s sep = (if sep = [] then Inl ValueError else Inr (split_from sep [] s))"

text \<open>\<open>sep.join(xs)\<close>.\<close>

fun join :: "pystr \<Rightarrow> pystr list \<Rightarrow> pystr" where
  "join sep [] = []"
| "join sep [x] = x"
| "join sep (x # y # ys) = x @ sep @ join sep (y # ys)"

text \<open>
  \<open>s.rsplit(c, 1)[0]\<close> for a one-character separator: the text before the last
  occurrence of \<open>c\<close>, and the whole of \<open>s\<close> when \<open>c\<close> does not occur.
\<close>

fun before_last :: "nat \<Rightarrow> pystr \<Rightarrow> pystr option" where
  "before_last c [] = None"
| "before_last c (x # xs) =
     (case before_last c xs of
        Some p \<Rightarrow> Some (x # p)
      | None \<Rightarrow> if x = c then Some [] else None)"

definition rsplit1_head :: "pystr \<Rightarrow> nat \<Rightarrow> pystr" where
  "rsplit1_head s c = (case before_last c s of Some p \<Rightarrow> p | None \<Rightarrow> s)"

text \<open>\<open>xs[i]\<close> for a non-negative index: \<open>IndexError\<close> out of range.\<close>

definition item :: "'a list \<Rightarrow> nat \<Rightarrow> error + 'a" where
  "item xs i = (if i < length xs then Inr (xs ! i) else Inl IndexError)"

text \<open>Sequencing of steps that may raise: the first exception ends the block.\<close>

definition bind_err :: "error + 'a \<Rightarrow> ('a \<Rightarrow> error + 'b) \<Rightarrow> error + 'b" where
  "bind_err m f = (case m of Inl e \<Rightarrow> Inl e | Inr x \<Rightarrow> f x)"

section \<open>The extractive fallback backend: \<open>SimpleLLM.generate\<close>\<close>

text \<open>
  \<open>src/rag/rag_pipeline.py\<close>, lines 29 to 66. The translation capability
  (\<open>from translate import Translator\<close>, its constructor and \<open>translator.translate\<close>) is
  external: it is the parameter \<open>translate to_lang text\<close>, which may raise.
\<close>

type_synonym translate_fn = "pystr \<Rightarrow> pystr \<Rightarrow> error + pystr"

definition canonical_fallback :: pystr where
  "canonical_fallback = str ''I don't have information about that in my NCERT knowledge base.''"

text \<open>Lines 41 to 45: the loop over the lines of the context, appending to \<open>sentences\<close>.\<close>

definition keeps :: "pystr \<Rightarrow> bool" where
  "keeps s = (s \<noteq> [] \<and> length s > 15 \<and> \<not> startswith s (str ''---''))"

fun collect_sentences :: "pystr list \<Rightarrow> pystr list \<Rightarrow> pystr list" where
  "collect_sentences sentences [] = sentences"
| "collect_sentences sentences (line # lines) =
     (let s = strip line
      in if keeps s then collect_sentences (sentences @ [s]) lines
         else collect_sentences sentences lines)"

text \<open>Lines 34 to 38: the context taken from the prompt.\<close>

definition extract_ctx :: "pystr \<Rightarrow> error + pystr" where
  "extract_ctx prompt =
     bind_err (py_split prompt (str ''Context:'')) (\<lambda>parts.
       if length parts > 1 then item parts 1 else Inr prompt)"

text \<open>Lines 49 to 51: the answer joined from the first four sentences, cut when long.\<close>

definition assemble :: "pystr list \<Rightarrow> pystr" where
  "assemble sentences =
     (let answer = join (str '' '') (take 4 sentences)
      in if length answer > 400
         then rsplit1_head (take 400 answer) 32 @ str ''.''
         else answer)"

definition translation_note :: "pystr \<Rightarrow> pystr" where
  "translation_note language =
     [10] @ str ''[Note: Response in '' @ language @ str '' unavailable. English provided above.]''"

text \<open>
  The body of the outer \<open>try\<close>: \<open>Inr (Some answer)\<close> is the \<open>return answer\<close> of line 63,
  \<open>Inr None\<close> leaves the block without returning (no sentence), \<open>Inl e\<close> is an exception.
\<close>

definition generate_try :: "translate_fn \<Rightarrow> pystr \<Rightarrow> pystr option \<Rightarrow> error + pystr option" where
  "generate_try translate prompt language =
     bind_err (extract_ctx prompt) (\<lambda>ctx.
     bind_err (py_split ctx [10]) (\<lambda>lines.
       let sentences = collect_sentences [] lines
       in if sentences \<noteq> [] then
            let answer = assemble sentences
            in (case language of
                  Some l \<Rightarrow>
                    if l \<noteq> [] \<and> l \<noteq> str ''en'' then
                      (case translate l answer of
                         Inr translated \<Rightarrow> Inr (Some translated)
                       | Inl e \<Rightarrow> Inr (Some (answer @ translation_note l)))
                    else Inr (Some answer)
                | None \<Rightarrow> Inr (Some answer))
          else Inr None))"

text \<open>
  The whole method: \<open>except Exception: pass\<close> absorbs an exception of the body, and both
  that and a body without sentences reach the final \<open>return\<close> of line 66.
\<close>

definition generate :: "translate_fn \<Rightarrow> pystr \<Rightarrow> pystr option \<Rightarrow> pystr" where
  "generate translate prompt language =
     (case generate_try translate prompt language of
        Inr (Some answer) \<Rightarrow> answer
      | Inr None \<Rightarrow> canonical_fallback
      | Inl e \<Rightarrow> canonical_fallback)"

section \<open>The pipeline: \<open>RAGPipeline\<close>\<close>

subsection \<open>Backend selection, lines 9 to 68 of \<open>__init__\<close>\<close>

text \<open>
  The environment is read with \<open>os.getenv\<close>, which gives \<open>None\<close> or a string. The classes
  \<open>OllamaLLM\<close>, \<open>GeminiLLM\<close> and \<open>LocalLLM\<close> live in modules that are imported on demand;
  importing the module and running the constructor is one step that either succeeds
  (\<open>None\<close>) or raises (\<open>Some e\<close>), given as a parameter for each class. Only the
  \<open>LocalLLM\<close> step stands inside a \<open>try\<close>.
\<close>

record env =
  OLLAMA_MODEL :: "pystr option"
  GOOGLE_API_KEY :: "pystr option"

record constructors =
  new_OllamaLLM :: "pystr \<Rightarrow> error option"
  new_GeminiLLM :: "error option"
  new_LocalLLM :: "error option"

datatype backend = OllamaLLM pystr | GeminiLLM | LocalLLM | SimpleLLM

definition init_local :: "constructors \<Rightarrow> error + backend" where
  "init_local k =
     (case new_LocalLLM k of
        None \<Rightarrow> Inr LocalLLM
      | Some e \<Rightarrow> Inr SimpleLLM)"

definition init_gemini :: "constructors \<Rightarrow> env \<Rightarrow> error + backend" where
  "init_gemini k e =
     (if truthy (GOOGLE_API_KEY e) then
        (case new_GeminiLLM k of
           Some err \<Rightarrow> Inl err
         | None \<Rightarrow> Inr GeminiLLM)
      else init_local k)"

definition init_llm :: "constructors \<Rightarrow> env \<Rightarrow> error + backend" where
  "init_llm k e =
     (case OLLAMA_MODEL e of
        Some ollama_model \<Rightarrow>
          if ollama_model \<noteq> [] then
            (case new_OllamaLLM k ollama_model of
               Some err \<Rightarrow> Inl err
             | None \<Rightarrow> Inr (OllamaLLM ollama_model))
          else init_gemini k e
      | None \<Rightarrow> init_gemini k e)"

subsection \<open>\<open>_build_prompt\<close>, lines 126 to 145\<close>

definition build_prompt :: "pystr \<Rightarrow> pystr \<Rightarrow> pystr \<Rightarrow> pystr" where
  \<open>build_prompt query context lang =
     (if lang = str ''hi'' then
        join [10]
         [[2310, 2346, 32, 2319, 2325, 32, 2360, 2361, 2366, 2351, 2325, 32, 2319, 2310,
           2312, 32, 2361, 2376, 2306, 2404, 32, 2344, 2368, 2330, 2375, 32, 2342, 2367,
           2319, 32, 2327, 2319, 32, 2360, 2306, 2342, 2352, 2381, 2349, 32, 2325, 2366,
           32, 2313, 2346, 2351, 2379, 2327, 32, 2325, 2352, 2325, 2375, 32, 2331, 2366,
           2340, 2381, 2352, 32, 2325, 2375, 32, 2346, 2381, 2352, 2358, 2381, 2344, 32,
           2325, 2366, 32, 2313, 2340, 2381, 2340, 2352, 32, 2342, 2375, 2306, 2404, 32],
          [2351, 2342, 2367, 32, 2313, 2340, 2381, 2340, 2352, 32, 2360, 2306, 2342, 2352,
           2381, 2349, 32, 2350, 2375, 2306, 32, 2344, 2361, 2368, 2306, 32, 2361, 2376,
           44, 32, 2340, 2379, 32, 2325, 2361, 2375, 2306, 32, 34, 2350, 2369, 2333, 2375,
           32, 2344, 2361, 2368, 2306, 32, 2346, 2340, 2366, 34, 2404],
          [],
          [2360, 2306, 2342, 2352, 2381, 2349, 58],
          context,
          [],
          [2346, 2381, 2352, 2358, 2381, 2344, 58, 32] @ query,
          [2313, 2340, 2381, 2340, 2352, 58]]
      else
        join [10]
         [str ''You are a helpful AI assistant for students. Answer the student's question using only the provided context. '',
          str ''If the answer is not in the context, say "I don't know". '',
          str ''Always provide a clear and simple explanation suitable for students.'',
          [],
          str ''Context:'',
          context,
          [],
          str ''Question: '' @ query,
          str ''Answer:''])\<close>

subsection \<open>\<open>generate_response\<close>, lines 70 to 124\<close>

text \<open>
  A retrieved document has its text and a metadata dictionary. The document store, the
  language detector and the selected backend are external: \<open>search query namespace k
  filter\<close>, \<open>detect text\<close> and \<open>llm prompt language\<close> are parameters that may raise. The
  language argument of a backend is \<open>None\<close> where the call leaves it out.
\<close>

record doc =
  page_content :: pystr
  metadata :: "pystr \<rightharpoonup> pyval"

type_synonym search_fn =
  "pystr \<Rightarrow> pystr option \<Rightarrow> nat \<Rightarrow> (pystr \<times> pystr) list option \<Rightarrow> error + doc list"

type_synonym detect_fn = "pystr \<Rightarrow> error + pystr"

type_synonym llm_fn = "pystr \<Rightarrow> pystr option \<Rightarrow> error + pystr"

text \<open>Lines 75 to 79: the response language.\<close>

definition detect_or_default :: "detect_fn \<Rightarrow> pystr \<Rightarrow> pystr" where
  "detect_or_default detect query =
     (case detect query of
        Inr detected \<Rightarrow> detected
      | Inl e \<Rightarrow> str ''en'')"

definition resolve_language :: "detect_fn \<Rightarrow> pystr option \<Rightarrow> pystr \<Rightarrow> pystr" where
  "resolve_language detect language query =
     (case language of
        None \<Rightarrow> detect_or_default detect query
      | Some l \<Rightarrow> if l = [] then detect_or_default detect query else l)"

text \<open>Lines 81 to 83 and the \<open>filter\<close> argument of line 91.\<close>

definition build_filter :: "pystr option \<Rightarrow> (pystr \<times> pystr) list option" where
  "build_filter filename =
     (case filename of
        Some f \<Rightarrow> if f \<noteq> [] then Some [(str ''filename'', f)] else None
      | None \<Rightarrow> None)"

text \<open>Lines 87 to 89: the namespace, with every space replaced by an underscore.\<close>

definition derive_namespace :: "pystr option \<Rightarrow> pystr option \<Rightarrow> pystr option" where
  "derive_namespace subject grade =
     (case (subject, grade) of
        (Some s, Some g) \<Rightarrow>
          if s \<noteq> [] \<and> g \<noteq> []
          then Some (map (\<lambda>c. if c = 32 then 95 else c) (s @ str ''_'' @ g))
          else None
      | _ \<Rightarrow> None)"

text \<open>\<open>d.get(key, default)\<close>.\<close>

definition dict_get :: "(pystr \<rightharpoonup> pyval) \<Rightarrow> pystr \<Rightarrow> pyval \<Rightarrow> pyval" where
  "dict_get d key dflt = (case d key of Some v \<Rightarrow> v | None \<Rightarrow> dflt)"

text \<open>Lines 113 to 118: the citation of one document.\<close>

definition citation :: "doc \<Rightarrow> pyval" where
  "citation d =
     PDict [(str ''source'', dict_get (metadata d) (str ''filename'') (PStr (str ''Unknown''))),
            (str ''page'', dict_get (metadata d) (str ''page'') (PStr (str ''?''))),
            (str ''grade'', dict_get (metadata d) (str ''grade'') (PStr (str ''?''))),
            (str ''subject'', dict_get (metadata d) (str ''subject'') (PStr (str ''?'')))]"

definition not_found_message :: pystr where
  "not_found_message =
     str ''I am sorry, but I don't have information about that in my NCERT knowledge base.''"

text \<open>The returned dictionary is the list of its items, in the order written.\<close>

definition generate_response ::
  "detect_fn \<Rightarrow> search_fn \<Rightarrow> llm_fn \<Rightarrow> pystr \<Rightarrow> pystr option \<Rightarrow> pystr option \<Rightarrow>
   pystr option \<Rightarrow> pystr option \<Rightarrow> error + (pystr \<times> pyval) list" where
  "generate_response detect search llm query grade subject filename language =
     (let language = resolve_language detect language query;
          subject_grade_namespace = derive_namespace subject grade
      in bind_err (search query subject_grade_namespace 3 (build_filter filename)) (\<lambda>docs.
           if docs = [] then
             Inr [(str ''answer'', PStr not_found_message),
                  (str ''citations'', PList [])]
           else
             let context = join ([10] @ str ''---'' @ [10]) (map page_content docs);
                 prompt = build_prompt query context language
             in bind_err (llm prompt (Some language)) (\<lambda>response_text.
                  Inr [(str ''answer'', PStr response_text),
                       (str ''citations'', PList (map citation docs)),
                       (str ''response_language'', PStr language)])))"

section \<open>The assessment endpoint: \<open>generate_assessment\<close>\<close>

text \<open>
  \<open>src/api/main.py\<close>, lines 198 to 268. The request is the \<open>QueryRequest\<close> model of
  lines 37 to 43. \<open>get_pipeline()\<close> gives the pipeline built once for the process, or
  raises while building it; of the pipeline the endpoint uses the document store's
  \<open>search\<close> and the backend's \<open>generate\<close>. \<open>json.loads\<close> is external and may raise.
\<close>

record QueryRequest =
  req_query :: pystr
  req_grade :: "pystr option"
  req_subject :: "pystr option"
  req_filename :: "pystr option"
  req_conversation_id :: "pystr option"
  req_language :: "pystr option"

record pipeline =
  vector_store_search :: search_fn
  llm_generate :: llm_fn

text \<open>\<open>x or default\<close> on an \<open>Optional[str]\<close>.\<close>

definition or_else :: "pystr option \<Rightarrow> pystr \<Rightarrow> pystr" where
  "or_else v dflt = (case v of Some s \<Rightarrow> if s \<noteq> [] then s else dflt | None \<Rightarrow> dflt)"

text \<open>Lines 224 to 248: the prompt around the context.\<close>

definition assessment_prompt :: "pystr \<Rightarrow> pystr" where
  \<open>assessment_prompt context =
     join [10]
      [str ''You are an educational assessment expert for NCERT curriculum. '',
       str ''Using the context below, generate high-quality study materials for a student.'',
       [],
       str ''Context:'',
       context,
       [],
       str ''Output strictly in JSON format with the following structure:'',
       str ''{'',
       str ''  "topic": "The main topic name",'',
       str ''  "flashcards": ['',
       str ''    {"q": "Question/Term", "a": "Concise answer/definition"},'',
       str ''    ... (at least 4)'',
       str ''  ],'',
       str ''  "quiz": ['',
       str ''    {'',
       str ''      "q": "Multiple choice question",'',
       str ''      "options": ["Option A", "Option B", "Option C", "Option D"],'',
       str ''      "correct": "Exact string of the correct option"'',
       str ''    },'',
       str ''    ... (at least 3)'',
       str ''  ]'',
       str ''}'',
       [],
       str ''Ensure questions are diverse and cover key concepts from the context.'',
       []]\<close>

text \<open>Lines 252 to 256: a Markdown fence around the backend's output is removed.\<close>

definition between_fences :: "pystr \<Rightarrow> pystr \<Rightarrow> error + pystr" where
  "between_fences clean_json opening =
     bind_err (py_split clean_json opening) (\<lambda>parts.
     bind_err (item parts 1) (\<lambda>inner.
     bind_err (py_split inner (str ''```'')) (\<lambda>pieces.
     bind_err (item pieces 0) (\<lambda>body. Inr (strip body)))))"

definition clean_response :: "pystr \<Rightarrow> error + pystr" where
  "clean_response raw_response =
     (let clean_json = strip raw_response
      in if startswith clean_json (str ''```json'') then between_fences clean_json (str ''```json'')
         else if startswith clean_json (str ''```'') then between_fences clean_json (str ''```'')
         else Inr clean_json)"

text \<open>Lines 262 to 268: the payload returned by the \<open>except\<close> branch.\<close>

definition assessment_fallback :: "QueryRequest \<Rightarrow> pyval" where
  "assessment_fallback request =
     PDict [(str ''topic'', PStr (or_else (req_subject request) (str ''Study Session''))),
            (str ''flashcards'',
               PList [PDict [(str ''q'', PStr (str ''Error generating flashcards'')),
                             (str ''a'', PStr (str ''Please try a more specific topic.''))]]),
            (str ''quiz'', PList [])]"

text \<open>Lines 204 to 258: the body of the \<open>try\<close>.\<close>

definition generate_assessment_try ::
  "(error + pipeline) \<Rightarrow> (pystr \<Rightarrow> error + pyval) \<Rightarrow> QueryRequest \<Rightarrow> error + pyval" where
  "generate_assessment_try get_pipeline json_loads request =
     bind_err get_pipeline (\<lambda>pipe.
       let namespace = derive_namespace (req_subject request) (req_grade request);
           filters = build_filter (req_filename request)
       in bind_err (vector_store_search pipe (req_query request) namespace 8 filters) (\<lambda>docs.
          bind_err (if docs = []
                    then vector_store_search pipe (or_else (req_subject request) (str ''NCERT''))
                           namespace 8 filters
                    else Inr docs) (\<lambda>docs.
            if docs = [] then
              Inl (HTTPException 404 (str ''No content found to generate assessment.''))
            else
              let context = join ([10] @ str ''---'' @ [10]) (map page_content docs);
                  prompt = assessment_prompt context
              in bind_err (llm_generate pipe prompt None) (\<lambda>raw_response.
                 bind_err (clean_response raw_response) (\<lambda>clean_json.
                   json_loads clean_json)))))"

text \<open>
  The endpoint: \<open>except Exception\<close> takes every exception of the body, an
  \<open>HTTPException\<close> too, and returns the fallback payload.
\<close>

definition generate_assessment ::
  "(error + pipeline) \<Rightarrow> (pystr \<Rightarrow> error + pyval) \<Rightarrow> QueryRequest \<Rightarrow> error + pyval" where
  "generate_assessment get_pipeline json_loads request =
     (case generate_assessment_try get_pipeline json_loads request of
        Inr payload \<Rightarrow> Inr payload
      | Inl e \<Rightarrow> Inr (assessment_fallback request))"

section \<open>Derived notions used in the statements\<close>

text \<open>
  The value of the local variable \<open>sentences\<close> at line 48 of \<open>SimpleLLM.generate\<close>, and of
  \<open>' '.join(sentences[:4])\<close> at line 49, as functions of the prompt.
\<close>

definition sentences_of :: "pystr \<Rightarrow> pystr list" where
  "sentences_of prompt =
     (case extract_ctx prompt of
        Inr ctx \<Rightarrow>
          (case py_split ctx [10] of
             Inr lines \<Rightarrow> collect_sentences [] lines
           | Inl e \<Rightarrow> [])
      | Inl e \<Rightarrow> [])"

definition joined_answer :: "pystr \<Rightarrow> pystr" where
  "joined_answer prompt = join (str '' '') (take 4 (sentences_of prompt))"

text \<open>
  The condition of line 54 is false: no language, the empty string, or \<open>en\<close>. Then the
  answer is returned as assembled.
\<close>

definition untranslated :: "pystr option \<Rightarrow> bool" where
  "untranslated language =
     (language = None \<or> language = Some [] \<or> language = Some (str ''en''))"

subsection \<open>The specification's wording, for comparison with the code\<close>

text \<open>
  The specification's candidate context: everything after the first occurrence of
  the marker, and the whole prompt when the marker does not occur.
\<close>

fun after_first :: "pystr \<Rightarrow> pystr \<Rightarrow> pystr option" where
  "after_first marker [] = (if marker = [] then Some [] else None)"
| "after_first marker (c # cs) =
     (if prefix marker (c # cs) then Some (drop (length marker) (c # cs))
      else after_first marker cs)"

definition spec_candidate_context :: "pystr \<Rightarrow> pystr" where
  "spec_candidate_context prompt =
     (case after_first (str ''Context:'') prompt of
        Some rest \<Rightarrow> rest
      | None \<Rightarrow> prompt)"

text \<open>
  The specification's qualifying line: non-empty, longer than 15 characters, and not
  a separator line, which is a line consisting of dashes.
\<close>

definition spec_separator_line :: "pystr \<Rightarrow> bool" where
  "spec_separator_line s = (s \<noteq> [] \<and> list_all (\<lambda>c. c = 45) s)"

definition spec_qualifies :: "pystr \<Rightarrow> bool" where
  "spec_qualifies s = (s \<noteq> [] \<and> length s > 15 \<and> \<not> spec_separator_line s)"

subsection \<open>Concrete collaborators and inputs\<close>

definition unavailable_translator :: translate_fn where
  "unavailable_translator to_lang text = Inl (Raised (str ''ImportError''))"

definition failing_detector :: detect_fn where
  "failing_detector text = Inl (Raised (str ''LangDetectException''))"

definition hindi_detector :: detect_fn where
  "hindi_detector text = Inr (str ''hi'')"

definition empty_store :: search_fn where
  "empty_store q namespace k flt = Inr []"

definition echo_llm :: llm_fn where
  "echo_llm prompt language = Inr (str ''generated'')"

definition failing_json :: "pystr \<Rightarrow> error + pyval" where
  "failing_json text = Inl (Raised (str ''JSONDecodeError''))"

definition empty_pipeline :: pipeline where
  "empty_pipeline = \<lparr>vector_store_search = empty_store, llm_generate = echo_llm\<rparr>"

definition science_request :: QueryRequest where
  "science_request =
     \<lparr>req_query = str ''photosynthesis'', req_grade = Some (str ''6''),
      req_subject = Some (str ''Science''), req_filename = None,
      req_conversation_id = None, req_language = Some (str ''en'')\<rparr>"

definition ollama_env :: env where
  "ollama_env = \<lparr>OLLAMA_MODEL = Some (str ''llama3''), GOOGLE_API_KEY = Some (str ''key'')\<rparr>"

definition gemini_env :: env where
  "gemini_env = \<lparr>OLLAMA_MODEL = None, GOOGLE_API_KEY = Some (str ''key'')\<rparr>"

definition bare_env :: env where
  "bare_env = \<lparr>OLLAMA_MODEL = None, GOOGLE_API_KEY = None\<rparr>"

definition working_constructors :: constructors where
  "working_constructors =
     \<lparr>new_OllamaLLM = (\<lambda>model_name. None), new_GeminiLLM = None, new_LocalLLM = None\<rparr>"

definition broken_constructors :: constructors where
  "broken_constructors =
     \<lparr>new_OllamaLLM = (\<lambda>model_name. Some (Raised (str ''ConnectionError''))),
      new_GeminiLLM = Some (Raised (str ''ImportError'')),
      new_LocalLLM = Some (Raised (str ''ImportError''))\<rparr>"

definition two_docs :: "doc list" where
  "two_docs =
     [\<lparr>page_content = str ''Plants make food by photosynthesis.'',
       metadata = [str ''filename'' \<mapsto> PStr (str ''science6.pdf''), str ''page'' \<mapsto> PInt 12]\<rparr>,
      \<lparr>page_content = str ''Leaves contain chlorophyll.'',
       metadata = Map.empty\<rparr>]"

definition two_docs_store :: search_fn where
  "two_docs_store q namespace k flt = Inr two_docs"

text \<open>
  Prompts for the fallback backend: one line of 500 letters without a space, one line
  of 508 characters with spaces, and a prompt with five lines that are kept among
  separators and a short line.
\<close>

definition unbroken_text :: pystr where
  "unbroken_text = replicate 500 97"

definition long_text :: pystr where
  "long_text = str ''abcd efgh'' @ concat (replicate 99 (str '' abcd'')) @ str '' end''"

definition leaf_prompt :: pystr where
  "leaf_prompt =
     str ''Context:'' @ [10] @ str ''Plants make their own food.'' @ [10] @ str ''---'' @ [10]
     @ str ''  Leaves contain chlorophyll.  '' @ [10] @ str ''short'' @ [10]
     @ str ''--------------------'' @ [10]
     @ str ''Sunlight gives the energy needed.'' @ [10]
     @ str ''Water comes from the roots below.'' @ [10]
     @ str ''Carbon dioxide enters through stomata.''"

section \<open>Properties of the text operations\<close>

lemma marker_nonempty: "str ''Context:'' \<noteq> []"
  by (simp add: str_def)

lemma split_from_nonempty: "split_from sep cur s \<noteq> []"
  by (induction sep cur s rule: split_from.induct) auto

lemma split_from_absent:
  "hd sep \<notin> set s \<Longrightarrow> split_from sep cur s = [cur @ s]"
proof (induction s arbitrary: cur)
  case Nil
  then show ?case by simp
next
  case (Cons c cs)
  have "\<not> (sep \<noteq> [] \<and> prefix sep (c # cs))"
  proof
    assume a: "sep \<noteq> [] \<and> prefix sep (c # cs)"
    then obtain x xs where "sep = x # xs" by (cases sep) auto
    with a have "x = c" by simp
    with \<open>sep = x # xs\<close> Cons.prems show False by simp
  qed
  with Cons show ?case by simp
qed

lemma extract_ctx_eq:
  "extract_ctx prompt =
     Inr (let parts = split_from (str ''Context:'') [] prompt
          in if length parts > 1 then parts ! 1 else prompt)"
  by (simp add: extract_ctx_def py_split_def bind_err_def item_def marker_nonempty Let_def)

lemma collect_sentences_filter:
  "collect_sentences acc lines = acc @ filter keeps (map strip lines)"
  by (induction lines arbitrary: acc) (simp_all add: Let_def)

lemma before_last_None: "before_last c s = None \<longleftrightarrow> c \<notin> set s"
  by (induction s) (auto split: option.splits)

lemma before_last_Some:
  "before_last c s = Some p \<Longrightarrow> (\<exists>r. s = p @ c # r \<and> c \<notin> set r)"
proof (induction s arbitrary: p)
  case Nil
  then show ?case by simp
next
  case (Cons x xs)
  show ?case
  proof (cases "before_last c xs")
    case None
    with Cons.prems have "x = c" "p = []" by (auto split: if_splits)
    moreover from None have "c \<notin> set xs" by (simp add: before_last_None)
    ultimately show ?thesis by auto
  next
    case (Some q)
    with Cons.prems have p: "p = x # q" by simp
    from Cons.IH [OF Some] obtain r where "xs = q @ c # r" "c \<notin> set r" by blast
    with p show ?thesis by auto
  qed
qed

lemma strip_id:
  "s \<noteq> [] \<Longrightarrow> \<not> is_space (hd s) \<Longrightarrow> \<not> is_space (last s) \<Longrightarrow> strip s = s"
proof -
  assume a: "s \<noteq> []" "\<not> is_space (hd s)" "\<not> is_space (last s)"
  then have 1: "dropWhile is_space s = s" by (cases s) auto
  from a have "rev s \<noteq> []" "\<not> is_space (hd (rev s))" by (simp_all add: hd_rev)
  then have "dropWhile is_space (rev s) = rev s" by (cases "rev s") auto
  with 1 show ?thesis by (simp add: strip_def)
qed

section \<open>Properties of \<open>SimpleLLM.generate\<close>\<close>

text \<open>
  No step of the body raises on a string: the marker and the newline are non-empty
  separators, and \<open>parts[1]\<close> is read only when there are two parts. The method is
  therefore determined by the sentences found and by the translator.
\<close>
lemma newline_nonempty: "[10::nat] \<noteq> []"
  by simp

lemma sentences_of_eq:
  "extract_ctx prompt = Inr ctx \<Longrightarrow>
   sentences_of prompt = filter keeps (map strip (split_from [10] [] ctx))"
  by (simp add: sentences_of_def py_split_def collect_sentences_filter)

lemma extract_ctx_total: "\<exists>ctx. extract_ctx prompt = Inr ctx"
  by (simp add: extract_ctx_eq)

lemma generate_try_eq:
  "generate_try translate prompt language =
     Inr (if sentences_of prompt = [] then None
          else (case language of
                  Some l \<Rightarrow>
                    if l \<noteq> [] \<and> l \<noteq> str ''en'' then
                      (case translate l (assemble (sentences_of prompt)) of
                         Inr translated \<Rightarrow> Some translated
                       | Inl e \<Rightarrow> Some (assemble (sentences_of prompt) @ translation_note l))
                    else Some (assemble (sentences_of prompt))
                | None \<Rightarrow> Some (assemble (sentences_of prompt))))"
proof -
  obtain ctx where c: "extract_ctx prompt = Inr ctx"
    using extract_ctx_total by blast
  show ?thesis
    by (simp add: generate_try_def sentences_of_def c bind_err_def py_split_def Let_def
        split: option.splits sum.splits)
qed

lemma generate_eq:
  "generate translate prompt language =
     (if sentences_of prompt = [] then canonical_fallback
      else (case language of
              Some l \<Rightarrow>
                if l \<noteq> [] \<and> l \<noteq> str ''en'' then
                  (case translate l (assemble (sentences_of prompt)) of
                     Inr translated \<Rightarrow> translated
                   | Inl e \<Rightarrow> assemble (sentences_of prompt) @ translation_note l)
                else assemble (sentences_of prompt)
            | None \<Rightarrow> assemble (sentences_of prompt)))"
  by (simp add: generate_def generate_try_eq split: option.splits sum.splits)

lemma generate_untranslated:
  "untranslated language \<Longrightarrow> sentences_of prompt \<noteq> [] \<Longrightarrow>
   generate translate prompt language = assemble (sentences_of prompt)"
  by (auto simp: generate_eq untranslated_def)

text \<open>
  C8. Whenever the context taken from the prompt has no line that is kept, the method
  returns the canonical string \<open>I don't have information about that in my NCERT
  knowledge base.\<close>, whatever the language and the translator.
\<close>

theorem generate_fallback_when_no_sentence:
  "extract_ctx prompt = Inr ctx \<Longrightarrow>
   \<forall>line \<in> set (split_from [10] [] ctx). \<not> keeps (strip line) \<Longrightarrow>
   generate translate prompt language = canonical_fallback"
proof -
  assume c: "extract_ctx prompt = Inr ctx"
    and n: "\<forall>line \<in> set (split_from [10] [] ctx). \<not> keeps (strip line)"
  from n have "filter keeps (map strip (split_from [10] [] ctx)) = []"
    by (simp add: filter_empty_conv)
  with c have "sentences_of prompt = []" by (simp add: sentences_of_eq)
  then show ?thesis by (simp add: generate_eq)
qed

lemma ex1_ctx: "extract_ctx (str ''Context:'' @ [10] @ str ''too short'' @ [10] @ str ''--------------------'')
   = Inr ([10] @ str ''too short'' @ [10] @ str ''--------------------'')"
  by (simp add: extract_ctx_eq str_def)

lemma ex1_lines: "split_from [10] [] ([10] @ str ''too short'' @ [10] @ str ''--------------------'')
   = [[], str ''too short'', str ''--------------------'']"
  by (simp add: str_def)

theorem generate_fallback_when_no_sentence_witness:
  "generate unavailable_translator
     (str ''Context:'' @ [10] @ str ''too short'' @ [10] @ str ''--------------------'')
     (Some (str ''hi'')) = canonical_fallback"
proof -
  have "\<forall>line \<in> set (split_from [10] [] ([10] @ str ''too short'' @ [10] @ str ''--------------------'')).
          \<not> keeps (strip line)"
    unfolding ex1_lines by (simp add: keeps_def strip_def is_space_def startswith_def str_def)
  then show ?thesis
    using generate_fallback_when_no_sentence [OF ex1_ctx] by blast
qed

text \<open>
  C10. For every prompt and every language (\<open>None\<close> or any string) the body of the
  \<open>try\<close> ends without an exception, also when the translator raises, and the method
  returns the canonical string, the assembled answer, the translator's output for the
  assembled answer, or the assembled answer followed by the bracketed note when the
  translator has raised.
\<close>

theorem generate_total:
  "(\<exists>r. generate_try translate prompt language = Inr r) \<and>
   (generate translate prompt language = canonical_fallback
    \<or> generate translate prompt language = assemble (sentences_of prompt)
    \<or> (\<exists>l. language = Some l \<and>
          (translate l (assemble (sentences_of prompt)) = Inr (generate translate prompt language)
           \<or> (\<exists>e. translate l (assemble (sentences_of prompt)) = Inl e) \<and>
             generate translate prompt language
               = assemble (sentences_of prompt) @ translation_note l)))"
proof
  show "\<exists>r. generate_try translate prompt language = Inr r"
    by (simp add: generate_try_eq)
next
  show "generate translate prompt language = canonical_fallback
    \<or> generate translate prompt language = assemble (sentences_of prompt)
    \<or> (\<exists>l. language = Some l \<and>
          (translate l (assemble (sentences_of prompt)) = Inr (generate translate prompt language)
           \<or> (\<exists>e. translate l (assemble (sentences_of prompt)) = Inl e) \<and>
             generate translate prompt language
               = assemble (sentences_of prompt) @ translation_note l))"
    by (auto simp: generate_eq split: option.splits sum.splits)
qed

theorem generate_total_witness:
  "\<exists>r. generate_try unavailable_translator
         (str ''Context:'' @ [10] @ str ''Plants make their own food.'') (Some (str ''hi''))
       = Inr r"
  using generate_total [of unavailable_translator
      "str ''Context:'' @ [10] @ str ''Plants make their own food.''" "Some (str ''hi'')"]
  by blast

section \<open>Properties of the pipeline\<close>

text \<open>
  C7. The language of lines 75 to 79: a non-empty requested language is returned
  unchanged; with no language requested (\<open>None\<close> or the empty string) the detector runs
  on the query, its result is returned when it succeeds, and \<open>en\<close> is returned when it
  raises, whatever it raises. The result is a language, never an exception.
\<close>

theorem resolve_language_cases:
  "(l \<noteq> [] \<longrightarrow> resolve_language detect (Some l) query = l)
   \<and> (\<not> truthy language \<longrightarrow> detect query = Inl e \<longrightarrow>
        resolve_language detect language query = str ''en'')
   \<and> (\<not> truthy language \<longrightarrow> detect query = Inr d \<longrightarrow>
        resolve_language detect language query = d)"
  by (simp add: resolve_language_def detect_or_default_def truthy_def split: option.splits)

theorem resolve_language_cases_witness:
  "resolve_language failing_detector (Some (str ''ta'')) (str ''any text'') = str ''ta''
   \<and> resolve_language failing_detector None [] = str ''en''
   \<and> resolve_language hindi_detector (Some []) (str ''namaste'') = str ''hi''"
proof -
  have 1: "str ''ta'' \<noteq> []" by (simp add: str_def)
  have 2: "\<not> truthy None" "\<not> truthy (Some [])" by (simp_all add: truthy_def)
  have 3: "failing_detector [] = Inl (Raised (str ''LangDetectException''))"
    by (simp add: failing_detector_def)
  have 4: "hindi_detector (str ''namaste'') = Inr (str ''hi'')"
    by (simp add: hindi_detector_def)
  show ?thesis
    using resolve_language_cases [of "str ''ta''" failing_detector "str ''any text''"]
      resolve_language_cases [of "[]" failing_detector "[]" None "Raised (str ''LangDetectException'')"]
      resolve_language_cases [of "[]" hindi_detector "str ''namaste''" "Some []" _ "str ''hi''"]
      1 2 3 4
    by blast
qed

text \<open>
  C3, as amended. The selection is by priority: a non-empty \<open>OLLAMA_MODEL\<close> decides for
  \<open>OllamaLLM\<close> whatever \<open>GOOGLE_API_KEY\<close> holds; otherwise a non-empty \<open>GOOGLE_API_KEY\<close>
  decides for \<open>GeminiLLM\<close>; otherwise \<open>LocalLLM\<close> is tried and \<open>SimpleLLM\<close> replaces it
  when its construction raises, so that this last tier never raises. In the first two
  tiers the constructor stands outside any \<open>try\<close>: the selection is what that
  constructor gives, its exception included.
\<close>

theorem init_llm_priority:
  "(OLLAMA_MODEL e = Some m \<and> m \<noteq> [] \<longrightarrow>
      init_llm k e = (case new_OllamaLLM k m of
                        None \<Rightarrow> Inr (OllamaLLM m)
                      | Some err \<Rightarrow> Inl err))
   \<and> (\<not> truthy (OLLAMA_MODEL e) \<and> truthy (GOOGLE_API_KEY e) \<longrightarrow>
      init_llm k e = (case new_GeminiLLM k of
                        None \<Rightarrow> Inr GeminiLLM
                      | Some err \<Rightarrow> Inl err))
   \<and> (\<not> truthy (OLLAMA_MODEL e) \<and> \<not> truthy (GOOGLE_API_KEY e) \<longrightarrow>
      init_llm k e = Inr (if new_LocalLLM k = None then LocalLLM else SimpleLLM))"
  by (auto simp: init_llm_def init_gemini_def init_local_def truthy_def
      split: option.splits)

theorem init_llm_priority_witness:
  "init_llm working_constructors ollama_env = Inr (OllamaLLM (str ''llama3''))
   \<and> init_llm working_constructors gemini_env = Inr GeminiLLM
   \<and> init_llm working_constructors bare_env = Inr LocalLLM
   \<and> init_llm broken_constructors bare_env = Inr SimpleLLM"
proof -
  have a: "OLLAMA_MODEL ollama_env = Some (str ''llama3'') \<and> str ''llama3'' \<noteq> []"
    by (simp add: ollama_env_def str_def)
  have b: "\<not> truthy (OLLAMA_MODEL gemini_env) \<and> truthy (GOOGLE_API_KEY gemini_env)"
    by (simp add: gemini_env_def truthy_def str_def)
  have c: "\<not> truthy (OLLAMA_MODEL bare_env) \<and> \<not> truthy (GOOGLE_API_KEY bare_env)"
    by (simp add: bare_env_def truthy_def)
  have d: "new_OllamaLLM working_constructors (str ''llama3'') = None"
    "new_GeminiLLM working_constructors = None" "new_LocalLLM working_constructors = None"
    "new_LocalLLM broken_constructors \<noteq> None"
    by (simp_all add: working_constructors_def broken_constructors_def)
  show ?thesis
    using init_llm_priority [of ollama_env "str ''llama3''" working_constructors]
      init_llm_priority [of gemini_env "[]" working_constructors]
      init_llm_priority [of bare_env "[]" working_constructors]
      init_llm_priority [of bare_env "[]" broken_constructors]
      a b c d
    by simp
qed

text \<open>
  C3, as stated, fails: with \<open>OLLAMA_MODEL\<close> set and the \<open>OllamaLLM\<close> constructor raising,
  or with only \<open>GOOGLE_API_KEY\<close> set and the \<open>GeminiLLM\<close> constructor raising, the selection
  raises and \<open>SimpleLLM\<close> is not selected.
\<close>

theorem init_llm_raises:
  "init_llm broken_constructors ollama_env = Inl (Raised (str ''ConnectionError''))
   \<and> init_llm broken_constructors gemini_env = Inl (Raised (str ''ImportError''))"
  by (simp add: init_llm_def init_gemini_def broken_constructors_def ollama_env_def
      gemini_env_def truthy_def str_def)

text \<open>
  With no document found, \<open>generate_response\<close> returns the dictionary of lines 95 to 98:
  the fixed message and an empty list of citations, and nothing else.
\<close>

lemma generate_response_not_found:
  "search query (derive_namespace subject grade) 3 (build_filter filename) = Inr [] \<Longrightarrow>
   generate_response detect search llm query grade subject filename language =
     Inr [(str ''answer'', PStr not_found_message), (str ''citations'', PList [])]"
  by (simp add: generate_response_def bind_err_def Let_def)

text \<open>
  C1. The code at a query for which the store finds nothing, with the language \<open>ta\<close>
  requested: the returned dictionary has the fixed message and no citation, and it has
  no \<open>response_language\<close> entry, though the language was resolved on line 75 and the
  return of lines 120 to 124 carries it.
\<close>

theorem not_found_answer_has_no_language:
  "generate_response failing_detector empty_store echo_llm (str ''What is gravity?'')
     None None None (Some (str ''ta''))
   = Inr [(str ''answer'', PStr not_found_message), (str ''citations'', PList [])]
   \<and> map_of [(str ''answer'', PStr not_found_message), (str ''citations'', PList [])]
        (str ''response_language'') = None"
  by (simp add: generate_response_not_found empty_store_def str_def)

text \<open>
  C9. When the store returns a non-empty list of documents and the backend returns a
  text, the answer carries one citation for each document, in the order of retrieval,
  and each citation has the four entries \<open>source\<close>, \<open>page\<close>, \<open>grade\<close> and \<open>subject\<close>, an
  entry being the document's metadata value when present and otherwise \<open>Unknown\<close> for
  the source and \<open>?\<close> for the others.
\<close>

theorem citations_follow_retrieval:
  "search query (derive_namespace subject grade) 3 (build_filter filename) = Inr docs \<Longrightarrow>
   docs \<noteq> [] \<Longrightarrow>
   llm (build_prompt query (join ([10] @ str ''---'' @ [10]) (map page_content docs))
          (resolve_language detect language query))
       (Some (resolve_language detect language query)) = Inr response_text \<Longrightarrow>
   generate_response detect search llm query grade subject filename language =
     Inr [(str ''answer'', PStr response_text),
          (str ''citations'', PList (map citation docs)),
          (str ''response_language'', PStr (resolve_language detect language query))]
   \<and> length (map citation docs) = length docs
   \<and> (\<forall>i < length docs.
        map citation docs ! i =
          PDict [(str ''source'',
                    (case metadata (docs ! i) (str ''filename'') of
                       Some v \<Rightarrow> v | None \<Rightarrow> PStr (str ''Unknown''))),
                 (str ''page'',
                    (case metadata (docs ! i) (str ''page'') of
                       Some v \<Rightarrow> v | None \<Rightarrow> PStr (str ''?''))),
                 (str ''grade'',
                    (case metadata (docs ! i) (str ''grade'') of
                       Some v \<Rightarrow> v | None \<Rightarrow> PStr (str ''?''))),
                 (str ''subject'',
                    (case metadata (docs ! i) (str ''subject'') of
                       Some v \<Rightarrow> v | None \<Rightarrow> PStr (str ''?'')))])"
  by (simp add: generate_response_def bind_err_def Let_def citation_def dict_get_def)

theorem citations_follow_retrieval_witness:
  "generate_response failing_detector two_docs_store echo_llm (str ''How do plants eat?'')
     (Some (str ''6'')) (Some (str ''Science'')) None None =
     Inr [(str ''answer'', PStr (str ''generated'')),
          (str ''citations'',
             PList [PDict [(str ''source'', PStr (str ''science6.pdf'')),
                           (str ''page'', PInt 12),
                           (str ''grade'', PStr (str ''?'')),
                           (str ''subject'', PStr (str ''?''))],
                    PDict [(str ''source'', PStr (str ''Unknown'')),
                           (str ''page'', PStr (str ''?'')),
                           (str ''grade'', PStr (str ''?'')),
                           (str ''subject'', PStr (str ''?''))]]),
          (str ''response_language'', PStr (str ''en''))]"
proof -
  have s: "two_docs_store (str ''How do plants eat?'')
             (derive_namespace (Some (str ''Science'')) (Some (str ''6''))) 3 (build_filter None)
           = Inr two_docs"
    by (simp add: two_docs_store_def)
  have n: "two_docs \<noteq> []" by (simp add: two_docs_def)
  have l: "echo_llm (build_prompt (str ''How do plants eat?'')
                (join ([10] @ str ''---'' @ [10]) (map page_content two_docs))
                (resolve_language failing_detector None (str ''How do plants eat?'')))
             (Some (resolve_language failing_detector None (str ''How do plants eat?'')))
           = Inr (str ''generated'')"
    by (simp add: echo_llm_def)
  have r: "resolve_language failing_detector None (str ''How do plants eat?'') = str ''en''"
    by (simp add: resolve_language_def detect_or_default_def failing_detector_def)
  have c: "map citation two_docs =
      [PDict [(str ''source'', PStr (str ''science6.pdf'')),
              (str ''page'', PInt 12),
              (str ''grade'', PStr (str ''?'')),
              (str ''subject'', PStr (str ''?''))],
       PDict [(str ''source'', PStr (str ''Unknown'')),
              (str ''page'', PStr (str ''?'')),
              (str ''grade'', PStr (str ''?'')),
              (str ''subject'', PStr (str ''?''))]]"
    by (simp add: two_docs_def citation_def dict_get_def str_def)
  from citations_follow_retrieval
    [where search = two_docs_store and query = "str ''How do plants eat?''"
       and subject = "Some (str ''Science'')" and grade = "Some (str ''6'')"
       and filename = None and docs = two_docs and llm = echo_llm
       and detect = failing_detector and language = None and response_text = "str ''generated''"]
    s n l have
    "generate_response failing_detector two_docs_store echo_llm (str ''How do plants eat?'')
       (Some (str ''6'')) (Some (str ''Science'')) None None =
     Inr [(str ''answer'', PStr (str ''generated'')),
          (str ''citations'', PList (map citation two_docs)),
          (str ''response_language'',
             PStr (resolve_language failing_detector None (str ''How do plants eat?'')))]"
    by blast
  then show ?thesis by (simp only: r c)
qed

section \<open>Properties of the assessment endpoint\<close>

text \<open>
  The endpoint returns a payload in every case, and the body of its \<open>try\<close> raises the
  404 exception when both searches find nothing.
\<close>

lemma generate_assessment_never_raises:
  "\<exists>payload. generate_assessment get_pipeline json_loads request = Inr payload"
  by (simp add: generate_assessment_def split: sum.splits)

lemma generate_assessment_try_no_content:
  "vector_store_search pipe (req_query request)
      (derive_namespace (req_subject request) (req_grade request)) 8
      (build_filter (req_filename request)) = Inr [] \<Longrightarrow>
   vector_store_search pipe (or_else (req_subject request) (str ''NCERT''))
      (derive_namespace (req_subject request) (req_grade request)) 8
      (build_filter (req_filename request)) = Inr [] \<Longrightarrow>
   generate_assessment_try (Inr pipe) json_loads request =
     Inl (HTTPException 404 (str ''No content found to generate assessment.''))"
  by (simp add: generate_assessment_try_def bind_err_def Let_def)

text \<open>
  C2. The code at a request for which both the search on the query and the search on
  the subject find nothing: the body raises \<open>HTTPException(404)\<close>, the \<open>except Exception\<close>
  of line 259 takes it, and the caller receives the fallback payload of lines 262 to
  268 instead of the exception.
\<close>

theorem assessment_no_content_is_swallowed:
  "generate_assessment_try (Inr empty_pipeline) failing_json science_request
     = Inl (HTTPException 404 (str ''No content found to generate assessment.''))
   \<and> generate_assessment (Inr empty_pipeline) failing_json science_request
     = Inr (PDict [(str ''topic'', PStr (str ''Science'')),
                   (str ''flashcards'',
                      PList [PDict [(str ''q'', PStr (str ''Error generating flashcards'')),
                                    (str ''a'', PStr (str ''Please try a more specific topic.''))]]),
                   (str ''quiz'', PList [])])"
proof -
  have t: "generate_assessment_try (Inr empty_pipeline) failing_json science_request
     = Inl (HTTPException 404 (str ''No content found to generate assessment.''))"
    by (rule generate_assessment_try_no_content)
       (simp_all add: empty_pipeline_def empty_store_def)
  have f: "assessment_fallback science_request =
      PDict [(str ''topic'', PStr (str ''Science'')),
             (str ''flashcards'',
                PList [PDict [(str ''q'', PStr (str ''Error generating flashcards'')),
                              (str ''a'', PStr (str ''Please try a more specific topic.''))]]),
             (str ''quiz'', PList [])]"
    by (simp add: assessment_fallback_def science_request_def or_else_def str_def)
  show ?thesis
    by (simp add: t generate_assessment_def f)
qed

section \<open>The context, the kept lines and the cut of \<open>SimpleLLM.generate\<close>\<close>

text \<open>
  What \<open>parts[1]\<close> is: with no marker the prompt is one part; with a marker, the
  second part is the text after the first marker up to the next marker. So the context
  is everything after the first marker exactly when the marker does not occur again.
\<close>

lemma split_from_no_marker:
  "after_first m p = None \<Longrightarrow> split_from m cur p = [cur @ p]"
  by (induction p arbitrary: cur) (auto split: if_splits)

lemma split_from_first_marker:
  "m \<noteq> [] \<Longrightarrow> after_first m p = Some rest \<Longrightarrow>
   \<exists>pre. split_from m cur p = (cur @ pre) # split_from m [] rest"
proof (induction p arbitrary: cur)
  case Nil
  then show ?case by simp
next
  case (Cons c cs)
  show ?case
  proof (cases "prefix m (c # cs)")
    case True
    with Cons.prems have "rest = drop (length m) (c # cs)" by simp
    with True Cons.prems(1) have "split_from m cur (c # cs) = (cur @ []) # split_from m [] rest"
      by simp
    then show ?thesis by blast
  next
    case False
    with Cons.prems have "after_first m cs = Some rest" by simp
    from Cons.IH [OF Cons.prems(1) this, of "cur @ [c]"]
    obtain pre where "split_from m (cur @ [c]) cs = ((cur @ [c]) @ pre) # split_from m [] rest"
      by blast
    with False have "split_from m cur (c # cs) = (cur @ (c # pre)) # split_from m [] rest"
      by simp
    then show ?thesis by blast
  qed
qed

lemma split_from_hd_no_marker:
  "after_first m p = None \<Longrightarrow> hd (split_from m [] p) = p"
  by (simp add: split_from_no_marker)

lemma extract_ctx_by_markers:
  "extract_ctx prompt =
     Inr (case after_first (str ''Context:'') prompt of
            None \<Rightarrow> prompt
          | Some rest \<Rightarrow> hd (split_from (str ''Context:'') [] rest))"
proof (cases "after_first (str ''Context:'') prompt")
  case None
  then show ?thesis
    by (simp add: extract_ctx_eq split_from_no_marker)
next
  case (Some rest)
  from split_from_first_marker [OF marker_nonempty Some, of "[]"]
  obtain pre where p: "split_from (str ''Context:'') [] prompt
      = pre # split_from (str ''Context:'') [] rest" by auto
  obtain x xs where r: "split_from (str ''Context:'') [] rest = x # xs"
    using split_from_nonempty [of "str ''Context:''" "[]" rest] by (cases "split_from (str ''Context:'') [] rest") auto
  show ?thesis
    by (simp add: extract_ctx_eq Some p r)
qed

lemma extract_ctx_single_marker:
  "after_first (str ''Context:'') prompt = Some rest \<Longrightarrow>
   after_first (str ''Context:'') rest = None \<Longrightarrow>
   extract_ctx prompt = Inr (spec_candidate_context prompt)"
  by (simp add: extract_ctx_by_markers spec_candidate_context_def split_from_hd_no_marker)

lemma extract_ctx_without_marker:
  "after_first (str ''Context:'') prompt = None \<Longrightarrow>
   extract_ctx prompt = Inr (spec_candidate_context prompt)"
  by (simp add: extract_ctx_by_markers spec_candidate_context_def)

text \<open>
  C4. The code at a prompt whose passage contains the marker again: the context is
  only the text between the first and the second marker, here a piece too short to be
  kept, and the method answers with the canonical string; everything after the first
  marker is the whole passage.
\<close>

theorem second_marker_cuts_context:
  "extract_ctx (str ''Context:'' @ [10] @ str ''Historical Context: the revolt of 1857 began in Meerut.'')
     = Inr ([10] @ str ''Historical '')
   \<and> spec_candidate_context
       (str ''Context:'' @ [10] @ str ''Historical Context: the revolt of 1857 began in Meerut.'')
     = [10] @ str ''Historical Context: the revolt of 1857 began in Meerut.''
   \<and> generate unavailable_translator
       (str ''Context:'' @ [10] @ str ''Historical Context: the revolt of 1857 began in Meerut.'')
       (Some (str ''en''))
     = canonical_fallback"
proof -
  let ?p = "str ''Context:'' @ [10] @ str ''Historical Context: the revolt of 1857 began in Meerut.''"
  have c: "extract_ctx ?p = Inr ([10] @ str ''Historical '')"
    by (simp add: extract_ctx_eq str_def)
  have s: "spec_candidate_context ?p
      = [10] @ str ''Historical Context: the revolt of 1857 began in Meerut.''"
    by (simp add: spec_candidate_context_def str_def)
  have "sentences_of ?p = []"
    by (subst sentences_of_eq [OF c]) (simp add: str_def keeps_def strip_def is_space_def)
  then have g: "generate unavailable_translator ?p (Some (str ''en'')) = canonical_fallback"
    by (simp add: generate_eq)
  from c s g show ?thesis by blast
qed

lemma rsplit1_head_absent: "c \<notin> set s \<Longrightarrow> rsplit1_head s c = s"
  by (simp add: rsplit1_head_def before_last_None [THEN iffD2])

lemma rsplit1_head_present:
  "c \<in> set s \<Longrightarrow>
   \<exists>k < length s. s ! k = c \<and> c \<notin> set (drop (Suc k) s) \<and> rsplit1_head s c = take k s"
proof -
  assume "c \<in> set s"
  then obtain p where p: "before_last c s = Some p"
    using before_last_None [of c s] by (cases "before_last c s") auto
  from before_last_Some [OF p] obtain r where r: "s = p @ c # r" "c \<notin> set r" by blast
  have "length p < length s" using r by simp
  moreover have "s ! length p = c" using r by simp
  moreover have "drop (Suc (length p)) s = r" using r by simp
  moreover have "rsplit1_head s c = take (length p) s"
    using p r by (simp add: rsplit1_head_def)
  ultimately show ?thesis using r(2) by metis
qed

lemma joined_long_has_sentences:
  "length (joined_answer prompt) > 400 \<Longrightarrow> sentences_of prompt \<noteq> []"
  by (auto simp: joined_answer_def)

lemma assemble_long:
  "length (joined_answer prompt) > 400 \<Longrightarrow>
   assemble (sentences_of prompt) = rsplit1_head (take 400 (joined_answer prompt)) 32 @ str ''.''"
  by (simp add: assemble_def joined_answer_def Let_def)

lemma assemble_short:
  "length (joined_answer prompt) \<le> 400 \<Longrightarrow>
   assemble (sentences_of prompt) = joined_answer prompt"
  by (simp add: assemble_def joined_answer_def Let_def)

text \<open>
  C5, as amended. When no translation is asked for and the joined answer is longer
  than 400 characters, the returned answer is the first 400 characters cut before
  their last space, or uncut when they hold no space, followed by a period. It ends
  with a period and has at most 401 characters; when the first 400 characters hold a
  space it has at most 400 characters and stops just before a space, with no further
  space in the part cut off.
\<close>

theorem truncated_answer:
  "untranslated language \<Longrightarrow> length (joined_answer prompt) > 400 \<Longrightarrow>
   generate translate prompt language
     = rsplit1_head (take 400 (joined_answer prompt)) 32 @ str ''.''
   \<and> last (generate translate prompt language) = 46
   \<and> length (generate translate prompt language) \<le> 401
   \<and> (32 \<in> set (take 400 (joined_answer prompt)) \<longrightarrow>
        length (generate translate prompt language) \<le> 400
        \<and> (\<exists>k < 400. joined_answer prompt ! k = 32
              \<and> 32 \<notin> set (drop (Suc k) (take 400 (joined_answer prompt)))
              \<and> generate translate prompt language = take k (joined_answer prompt) @ str ''.''))
   \<and> (32 \<notin> set (take 400 (joined_answer prompt)) \<longrightarrow>
        generate translate prompt language = take 400 (joined_answer prompt) @ str ''.'')"
proof -
  assume u: "untranslated language" and long: "length (joined_answer prompt) > 400"
  let ?a = "joined_answer prompt"
  let ?g = "generate translate prompt language"
  have g: "?g = rsplit1_head (take 400 ?a) 32 @ str ''.''"
    using generate_untranslated [OF u joined_long_has_sentences [OF long]] assemble_long [OF long]
    by simp
  have len: "length (take 400 ?a) = 400" using long by simp
  have dot: "str ''.'' = [46]" by (simp add: str_def)
  have l: "last ?g = 46" by (simp add: g dot)
  have absent: "32 \<notin> set (take 400 ?a) \<longrightarrow> ?g = take 400 ?a @ str ''.''"
    by (simp add: g rsplit1_head_absent)
  have present: "32 \<in> set (take 400 ?a) \<longrightarrow>
        length ?g \<le> 400
        \<and> (\<exists>k < 400. ?a ! k = 32
              \<and> 32 \<notin> set (drop (Suc k) (take 400 ?a))
              \<and> ?g = take k ?a @ str ''.'')"
  proof
    assume "32 \<in> set (take 400 ?a)"
    from rsplit1_head_present [OF this] len
    obtain k where k: "k < 400" "take 400 ?a ! k = 32"
      "32 \<notin> set (drop (Suc k) (take 400 ?a))"
      "rsplit1_head (take 400 ?a) 32 = take k (take 400 ?a)" by auto
    from k(1) have t: "take k (take 400 ?a) = take k ?a" by (simp add: min.absorb1)
    from k(1,2) have n: "?a ! k = 32" by simp
    have e: "?g = take k ?a @ str ''.''" by (simp only: g k(4) t)
    have "length ?g \<le> 400" using k(1) long by (simp add: e dot)
    with k(1) n k(3) e show "length ?g \<le> 400
        \<and> (\<exists>k < 400. ?a ! k = 32
              \<and> 32 \<notin> set (drop (Suc k) (take 400 ?a))
              \<and> ?g = take k ?a @ str ''.'')" by blast
  qed
  have bound: "length ?g \<le> 401"
  proof (cases "32 \<in> set (take 400 ?a)")
    case True
    with present show ?thesis by simp
  next
    case False
    with absent have "?g = take 400 ?a @ str ''.''" by simp
    then show ?thesis by (simp add: dot)
  qed
  from g l bound present absent show ?thesis by blast
qed

lemma not_startswith_dashes: "s \<noteq> [] \<Longrightarrow> hd s \<noteq> 45 \<Longrightarrow> \<not> startswith s (str ''---'')"
  by (cases s) (simp_all add: startswith_def str_def)

lemma plain_line_sentences:
  assumes "s \<noteq> []" "67 \<notin> set s" "10 \<notin> set s" "\<not> is_space (hd s)" "\<not> is_space (last s)"
    "keeps s"
  shows "sentences_of s = [s]"
proof -
  have "hd (str ''Context:'') = 67" by (simp add: str_def)
  with assms(2) have "split_from (str ''Context:'') [] s = [s]"
    by (simp add: split_from_absent)
  then have c: "extract_ctx s = Inr s" by (simp add: extract_ctx_eq)
  from assms(3) have l: "split_from [10] [] s = [s]" by (simp add: split_from_absent)
  from assms(1,4,5) have "strip s = s" by (rule strip_id)
  with assms(6) l show ?thesis by (simp add: sentences_of_eq [OF c])
qed

lemma plain_line_joined:
  assumes "s \<noteq> []" "67 \<notin> set s" "10 \<notin> set s" "\<not> is_space (hd s)" "\<not> is_space (last s)"
    "keeps s"
  shows "joined_answer s = s"
  by (simp add: joined_answer_def plain_line_sentences [OF assms])

lemma unbroken_joined: "joined_answer unbroken_text = unbroken_text"
proof (rule plain_line_joined)
  show "keeps unbroken_text"
    by (simp add: keeps_def unbroken_text_def not_startswith_dashes)
qed (simp_all add: unbroken_text_def is_space_def)

text \<open>
  C5, as stated, fails: a single line of 500 letters is a joined answer of 500
  characters, and the returned answer is its first 400 letters and a period, which
  is 401 characters and cuts the word.
\<close>

theorem truncation_can_exceed_400:
  "joined_answer unbroken_text = replicate 500 97
   \<and> generate unavailable_translator unbroken_text (Some (str ''en'')) = replicate 400 97 @ str ''.''
   \<and> length (generate unavailable_translator unbroken_text (Some (str ''en''))) = 401"
proof -
  have j: "joined_answer unbroken_text = replicate 500 97"
    using unbroken_joined by (simp add: unbroken_text_def)
  then have s: "sentences_of unbroken_text \<noteq> []"
    by (auto simp: joined_answer_def)
  have "assemble (sentences_of unbroken_text) = replicate 400 97 @ str ''.''"
    by (subst assemble_long) (simp_all add: j rsplit1_head_absent)
  with s have g: "generate unavailable_translator unbroken_text (Some (str ''en''))
      = replicate 400 97 @ str ''.''"
    by (simp add: generate_eq)
  from j g show ?thesis by (simp add: str_def)
qed

lemma long_text_joined: "joined_answer long_text = long_text"
proof (rule plain_line_joined)
  have "long_text \<noteq> []" "hd long_text \<noteq> 45"
    by (simp_all add: long_text_def str_def)
  then have "\<not> startswith long_text (str ''---'')" by (rule not_startswith_dashes)
  moreover have "length long_text > 15"
    by (simp add: long_text_def str_def length_concat sum_list_replicate)
  moreover have "long_text \<noteq> []" by (simp add: long_text_def str_def)
  ultimately show "keeps long_text" by (simp only: keeps_def simp_thms)
  show "\<not> is_space (last long_text)"
    by (simp add: long_text_def str_def is_space_def)
  show "\<not> is_space (hd long_text)"
    by (simp add: long_text_def str_def is_space_def)
qed (simp_all add: long_text_def str_def)

lemma long_text_length: "length long_text = 508"
  by (simp add: long_text_def str_def length_concat sum_list_replicate)

lemma long_text_space: "32 \<in> set (take 400 long_text)"
proof -
  have "take 400 long_text ! 4 = 32"
    by (simp add: long_text_def str_def nth_append)
  moreover have "4 < length (take 400 long_text)" by (simp add: long_text_length)
  ultimately show ?thesis by (metis nth_mem)
qed

theorem truncated_answer_witness:
  "length (generate unavailable_translator long_text None) \<le> 400
   \<and> last (generate unavailable_translator long_text None) = 46
   \<and> generate unavailable_translator unbroken_text (Some (str ''en''))
       = take 400 unbroken_text @ str ''.''"
proof -
  have u: "untranslated None" "untranslated (Some (str ''en''))"
    by (simp_all add: untranslated_def)
  have l: "length (joined_answer long_text) > 400"
    by (simp add: long_text_joined long_text_length)
  have s: "32 \<in> set (take 400 (joined_answer long_text))"
    by (simp only: long_text_joined long_text_space)
  have l2: "length (joined_answer unbroken_text) > 400"
    by (simp add: unbroken_joined) (simp add: unbroken_text_def)
  have s2: "32 \<notin> set (take 400 (joined_answer unbroken_text))"
    by (simp add: unbroken_joined) (simp add: unbroken_text_def)
  from truncated_answer [OF u(1) l, of unavailable_translator] s
  have a: "length (generate unavailable_translator long_text None) \<le> 400
      \<and> last (generate unavailable_translator long_text None) = 46" by blast
  from truncated_answer [OF u(2) l2, of unavailable_translator] s2
  have "generate unavailable_translator unbroken_text (Some (str ''en''))
      = take 400 (joined_answer unbroken_text) @ str ''.''" by blast
  then have b: "generate unavailable_translator unbroken_text (Some (str ''en''))
      = take 400 unbroken_text @ str ''.''" by (simp only: unbroken_joined)
  from a b show ?thesis by blast
qed

text \<open>
  C6, as stated, fails: a heading that begins with three dashes is non-empty, longer
  than 15 characters and not a line of dashes, and it is not kept.
\<close>

theorem dashed_heading_is_dropped:
  "spec_qualifies (strip (str ''--- Chapter 1: Motion ---''))
   \<and> \<not> keeps (strip (str ''--- Chapter 1: Motion ---''))
   \<and> collect_sentences [] [str ''--- Chapter 1: Motion ---''] = []"
  by (simp add: spec_qualifies_def spec_separator_line_def keeps_def startswith_def
      strip_def is_space_def str_def)

lemma keeps_iff:
  "keeps s \<longleftrightarrow> s \<noteq> [] \<and> 15 < length s \<and> take 3 s \<noteq> str ''---''"
proof -
  have "prefix (str ''---'') s \<longleftrightarrow> take 3 s = str ''---''"
  proof
    assume "prefix (str ''---'') s"
    then obtain r where "s = str ''---'' @ r" by (auto simp: prefix_def)
    then show "take 3 s = str ''---''" by (simp add: str_def)
  next
    assume "take 3 s = str ''---''"
    then have "s = str ''---'' @ drop 3 s" by (metis append_take_drop_id)
    then show "prefix (str ''---'') s" by (metis prefixI)
  qed
  then show ?thesis by (simp add: keeps_def startswith_def)
qed

lemma separator_line_not_kept: "spec_separator_line s \<Longrightarrow> \<not> keeps s"
proof
  assume d: "spec_separator_line s" and k: "keeps s"
  from k have "15 < length s" by (simp add: keeps_iff)
  then obtain a b c r where s: "s = a # b # c # r"
    by (cases s; cases "tl s"; cases "tl (tl s)") auto
  with d have "a = 45" "b = 45" "c = 45" by (simp_all add: spec_separator_line_def)
  with s have "take 3 s = str ''---''" by (simp add: str_def)
  with k show False by (simp add: keeps_iff)
qed

text \<open>
  C6, as amended. A line, stripped of surrounding whitespace, is kept exactly when it
  is non-empty, longer than 15 characters and does not begin with three dashes; this
  drops every line of dashes, and every other line beginning with three dashes too.
  The sentences are the kept lines of the context in their order, and the answer
  returned, when it is at most 400 characters and no translation is asked for, is the
  first four of them joined with single spaces.
\<close>

theorem kept_lines:
  "collect_sentences [] lines = filter keeps (map strip lines)
   \<and> (keeps s \<longleftrightarrow> s \<noteq> [] \<and> 15 < length s \<and> take 3 s \<noteq> str ''---'')
   \<and> (spec_separator_line s \<longrightarrow> \<not> keeps s)
   \<and> (extract_ctx prompt = Inr ctx \<longrightarrow>
        sentences_of prompt = filter keeps (map strip (split_from [10] [] ctx)))
   \<and> (untranslated language \<and> sentences_of prompt \<noteq> []
        \<and> length (joined_answer prompt) \<le> 400 \<longrightarrow>
        generate translate prompt language = join (str '' '') (take 4 (sentences_of prompt)))"
proof -
  have 1: "collect_sentences [] lines = filter keeps (map strip lines)"
    by (simp add: collect_sentences_filter)
  have 5: "untranslated language \<and> sentences_of prompt \<noteq> []
        \<and> length (joined_answer prompt) \<le> 400 \<longrightarrow>
        generate translate prompt language = join (str '' '') (take 4 (sentences_of prompt))"
    using generate_untranslated [of language prompt translate] assemble_short [of prompt]
    by (auto simp: joined_answer_def)
  from 1 keeps_iff [of s] separator_line_not_kept [of s] sentences_of_eq [of prompt ctx] 5
  show ?thesis by blast
qed

lemma leaf_ctx:
  "extract_ctx leaf_prompt =
     Inr ([10] @ str ''Plants make their own food.'' @ [10] @ str ''---'' @ [10]
     @ str ''  Leaves contain chlorophyll.  '' @ [10] @ str ''short'' @ [10]
     @ str ''--------------------'' @ [10]
     @ str ''Sunlight gives the energy needed.'' @ [10]
     @ str ''Water comes from the roots below.'' @ [10]
     @ str ''Carbon dioxide enters through stomata.'')"
  by (simp add: extract_ctx_eq leaf_prompt_def str_def)

lemma leaf_sentences:
  "sentences_of leaf_prompt =
     [str ''Plants make their own food.'', str ''Leaves contain chlorophyll.'',
      str ''Sunlight gives the energy needed.'', str ''Water comes from the roots below.'',
      str ''Carbon dioxide enters through stomata.'']"
  by (subst sentences_of_eq [OF leaf_ctx])
     (simp add: str_def keeps_def startswith_def strip_def is_space_def)

theorem kept_lines_witness:
  "generate unavailable_translator leaf_prompt (Some (str ''en'')) =
     str ''Plants make their own food. Leaves contain chlorophyll. Sunlight gives the energy needed. Water comes from the roots below.''
   \<and> \<not> keeps (str ''--------------------'')"
proof -
  have u: "untranslated (Some (str ''en''))" by (simp add: untranslated_def)
  have n: "sentences_of leaf_prompt \<noteq> []" by (simp add: leaf_sentences)
  have j: "join (str '' '') (take 4 (sentences_of leaf_prompt)) =
     str ''Plants make their own food. Leaves contain chlorophyll. Sunlight gives the energy needed. Water comes from the roots below.''"
    by (simp add: leaf_sentences str_def)
  have l: "length (joined_answer leaf_prompt) \<le> 400"
    by (simp add: joined_answer_def j) (simp add: str_def)
  have d: "spec_separator_line (str ''--------------------'')"
    by (simp add: spec_separator_line_def str_def)
  from kept_lines [of "[]" "str ''--------------------''" leaf_prompt _ "Some (str ''en'')"
      unavailable_translator] u n l d
  have "generate unavailable_translator leaf_prompt (Some (str ''en''))
      = join (str '' '') (take 4 (sentences_of leaf_prompt))
    \<and> \<not> keeps (str ''--------------------'')" by blast
  with j show ?thesis by metis
qed

end
